theory Spec2Isabelle
  imports Complex_Main "HOL-Library.AList" "HOL-Library.Multiset"
begin

section \<open>Data model (types.ts)\<close>

text \<open>
  An optional property \<open>f?: T\<close> of a TypeScript interface has three run-time states: the
  property is absent, it is present holding \<open>undefined\<close>, or it is present holding a value.
  Reading the property does not tell the first two apart; object spread does, since it copies
  every own property, also one that holds \<open>undefined\<close>.
\<close>

datatype 'a optional = Absent | Undefined | Present 'a

fun read :: "'a optional \<Rightarrow> 'a option" where
  "read Absent = None"
| "read Undefined = None"
| "read (Present v) = Some v"

record wishlist_image =
  url :: string
  altText :: "string option"

record wishlist_price =
  amount :: string
  currencyCode :: string

text \<open>\<open>variantTitle?: string | null\<close>: the value \<open>null\<close> is \<open>Present None\<close>.\<close>

record WishlistItem =
  productId :: string
  variantId :: "string optional"
  productTitle :: string
  productHandle :: "string optional"
  variantTitle :: "string option optional"
  image_f :: "wishlist_image optional"
  price :: "wishlist_price optional"
  addedAt :: string

section \<open>JavaScript numbers, dates and sorting\<close>

text \<open>
  A JavaScript number as far as the comparators of this package need it: a finite value,
  one of the two infinities, or NaN. Only the sign of a difference is ever used; for finite
  doubles the sign of the rounded difference is the sign of the exact one.
\<close>

datatype jsnum = NaN | NegInfinity | Finite rat | Infinity

fun jsMinus :: "jsnum \<Rightarrow> jsnum \<Rightarrow> jsnum" where
  "jsMinus NaN _ = NaN"
| "jsMinus _ NaN = NaN"
| "jsMinus Infinity Infinity = NaN"
| "jsMinus NegInfinity NegInfinity = NaN"
| "jsMinus Infinity _ = Infinity"
| "jsMinus NegInfinity _ = NegInfinity"
| "jsMinus (Finite a) Infinity = NegInfinity"
| "jsMinus (Finite a) NegInfinity = Infinity"
| "jsMinus (Finite a) (Finite b) = Finite (a - b)"

text \<open>
  \<open>Array.prototype.sort\<close> with a comparator. The result \<open>v\<close> of a comparison orders its
  first argument after the second exactly when \<open>v > 0\<close>, and NaN counts as \<open>+0\<close>.

  When the comparator is consistent on the elements of the array (its signs, with NaN read
  as \<open>+0\<close>, are those of a total preorder), the sort is stable and its result is determined:
  it is the list that the stable insertion sort returns. When the comparator is not
  consistent, as it is not when an Invalid Date makes some differences NaN, the result is
  still a permutation of the array, but its order is up to the engine. That order is the
  parameter \<open>impl\<close>: from the comparator and the array it gives the positions the engine
  picks one after the other, each among the elements that are left.
\<close>

fun positive :: "jsnum \<Rightarrow> bool" where
  "positive NaN = False"
| "positive NegInfinity = False"
| "positive (Finite q) = (0 < q)"
| "positive Infinity = True"

fun signOf :: "jsnum \<Rightarrow> int" where
  "signOf NaN = 0"
| "signOf NegInfinity = - 1"
| "signOf (Finite q) = (if 0 < q then 1 else if q < 0 then - 1 else 0)"
| "signOf Infinity = 1"

definition consistentOn :: "('a \<Rightarrow> 'a \<Rightarrow> jsnum) \<Rightarrow> 'a list \<Rightarrow> bool" where
  "consistentOn cmp xs =
     (\<forall>a\<in>set xs. \<forall>b\<in>set xs.
        signOf (cmp a b) = - signOf (cmp b a) \<and>
        (\<forall>c\<in>set xs. signOf (cmp a b) \<le> 0 \<and> signOf (cmp b c) \<le> 0 \<longrightarrow> signOf (cmp a c) \<le> 0))"

fun insertSorted :: "('a \<Rightarrow> 'a \<Rightarrow> jsnum) \<Rightarrow> 'a \<Rightarrow> 'a list \<Rightarrow> 'a list" where
  "insertSorted cmp x [] = [x]"
| "insertSorted cmp x (y # ys) =
     (if positive (cmp x y) then y # insertSorted cmp x ys else x # y # ys)"

definition stableSort :: "('a \<Rightarrow> 'a \<Rightarrow> jsnum) \<Rightarrow> 'a list \<Rightarrow> 'a list" where
  "stableSort cmp xs = foldr (insertSorted cmp) xs []"

fun permuteBy :: "nat list \<Rightarrow> 'a list \<Rightarrow> 'a list" where
  "permuteBy [] xs = xs"
| "permuteBy (k # ks) xs =
     (if xs = [] then []
      else (let i = k mod length xs
            in xs ! i # permuteBy ks (take i xs @ drop (Suc i) xs)))"

type_synonym 'a sort_impl = "('a \<Rightarrow> 'a \<Rightarrow> jsnum) \<Rightarrow> 'a list \<Rightarrow> nat list"

definition jsSort :: "'a sort_impl \<Rightarrow> ('a \<Rightarrow> 'a \<Rightarrow> jsnum) \<Rightarrow> 'a list \<Rightarrow> 'a list" where
  "jsSort impl cmp xs =
     (if consistentOn cmp xs then stableSort cmp xs else permuteBy (impl cmp xs) xs)"

text \<open>One instance of \<open>impl\<close>, for evaluating examples: it picks the first element each time.\<close>

definition pickFirst :: "'a sort_impl" where
  "pickFirst cmp xs = []"

text \<open>
  \<open>new Date(s)\<close> is a built-in: it is a parameter \<open>parse\<close> of every function that calls
  it, giving the time value in milliseconds, or \<open>None\<close> for an Invalid Date (whose
  \<open>getTime()\<close> is NaN and which compares false with everything).
\<close>

type_synonym date_parser = "string \<Rightarrow> int option"

definition getTime :: "date_parser \<Rightarrow> string \<Rightarrow> jsnum" where
  "getTime parse s = (case parse s of None \<Rightarrow> NaN | Some t \<Rightarrow> Finite (of_int t))"

definition dateLess :: "date_parser \<Rightarrow> string \<Rightarrow> string \<Rightarrow> bool" where
  "dateLess parse a b =
     (case parse a of None \<Rightarrow> False
      | Some ta \<Rightarrow> (case parse b of None \<Rightarrow> False | Some tb \<Rightarrow> ta < tb))"

text \<open>
  One instance of the parameter, for evaluating examples: the date-only ISO form
  \<open>YYYY-MM-DD\<close>, which \<open>Date\<close> reads as midnight UTC of that day. Every other string is
  an Invalid Date here.
\<close>

definition digitVal :: "char \<Rightarrow> nat option" where
  "digitVal c = (let n = (of_char c :: nat) in if 48 \<le> n \<and> n \<le> 57 then Some (n - 48) else None)"

fun digitsVal :: "nat \<Rightarrow> string \<Rightarrow> nat option" where
  "digitsVal acc [] = Some acc"
| "digitsVal acc (c # cs) =
     (case digitVal c of None \<Rightarrow> None | Some d \<Rightarrow> digitsVal (10 * acc + d) cs)"

definition daysFromCivil :: "int \<Rightarrow> int \<Rightarrow> int \<Rightarrow> int" where
  "daysFromCivil y m d =
     (let y' = (if m \<le> 2 then y - 1 else y);
          era = y' div 400;
          yoe = y' mod 400;
          doy = (153 * (if m > 2 then m - 3 else m + 9) + 2) div 5 + d - 1;
          doe = yoe * 365 + yoe div 4 - yoe div 100 + doy
      in era * 146097 + doe - 719468)"

definition daysInMonth :: "nat \<Rightarrow> nat \<Rightarrow> nat" where
  "daysInMonth y m =
     (if m = 2 then (if y mod 4 = 0 \<and> (y mod 100 \<noteq> 0 \<or> y mod 400 = 0) then 29 else 28)
      else if m = 4 \<or> m = 6 \<or> m = 9 \<or> m = 11 then 30 else 31)"

definition parseIsoDay :: date_parser where
  "parseIsoDay s =
     (if length s = 10 \<and> s ! 4 = CHR ''-'' \<and> s ! 7 = CHR ''-'' then
        (case (digitsVal 0 (take 4 s), digitsVal 0 (take 2 (drop 5 s)), digitsVal 0 (drop 8 s)) of
           (Some y, Some m, Some d) \<Rightarrow>
             (if 1 \<le> m \<and> m \<le> 12 \<and> 1 \<le> d \<and> d \<le> daysInMonth y m
              then Some (daysFromCivil (int y) (int m) (int d) * 86400000) else None)
         | _ \<Rightarrow> None)
      else None)"

section \<open>Merging (utils/merge.ts)\<close>

text \<open>
  The functions of this module take and return \<open>WishlistItem[]\<close>; they are embedded on
  items of that type.
\<close>

definition createItemKey :: "WishlistItem \<Rightarrow> string" where
  "createItemKey item =
     productId item @ '':'' @ (case read (variantId item) of None \<Rightarrow> ''default'' | Some v \<Rightarrow> v)"

text \<open>
  \<open>{...existing, ...item}\<close>: every own property of \<open>item\<close> overrides the one of
  \<open>existing\<close>; a property that \<open>item\<close> does not have keeps the value of \<open>existing\<close>.
\<close>

fun over :: "'a optional \<Rightarrow> 'a optional \<Rightarrow> 'a optional" where
  "over e Absent = e"
| "over e i = i"

definition spread :: "WishlistItem \<Rightarrow> WishlistItem \<Rightarrow> WishlistItem" where
  "spread existing item =
     \<lparr> productId = productId item,
       variantId = over (variantId existing) (variantId item),
       productTitle = productTitle item,
       productHandle = over (productHandle existing) (productHandle item),
       variantTitle = over (variantTitle existing) (variantTitle item),
       image_f = over (image_f existing) (image_f item),
       price = over (price existing) (price item),
       addedAt = addedAt item \<rparr>"

text \<open>
  The \<open>Map\<close> of \<open>mergeWishlists\<close> keeps its keys in insertion order, and \<open>set\<close> on a key
  that is present replaces the value in place: an association list under \<open>AList.update\<close>.
\<close>

type_synonym item_map = "(string \<times> WishlistItem) list"

definition addCustomerItem :: "WishlistItem \<Rightarrow> item_map \<Rightarrow> item_map" where
  "addCustomerItem item merged = AList.update (createItemKey item) item merged"

definition addGuestItem :: "date_parser \<Rightarrow> WishlistItem \<Rightarrow> item_map \<Rightarrow> item_map" where
  "addGuestItem parse item merged =
     (let key = createItemKey item in
      case map_of merged key of
        None \<Rightarrow> AList.update key item merged
      | Some existing \<Rightarrow>
          if dateLess parse (addedAt item) (addedAt existing)
          then AList.update key ((spread existing item)\<lparr>addedAt := addedAt item\<rparr>) merged
          else merged)"

definition mergedMap :: "date_parser \<Rightarrow> WishlistItem list \<Rightarrow> WishlistItem list \<Rightarrow> item_map" where
  "mergedMap parse guestItems customerItems =
     fold (addGuestItem parse) guestItems (fold addCustomerItem customerItems [])"

definition newestFirst :: "date_parser \<Rightarrow> WishlistItem \<Rightarrow> WishlistItem \<Rightarrow> jsnum" where
  "newestFirst parse a b = jsMinus (getTime parse (addedAt b)) (getTime parse (addedAt a))"

definition mergeWishlists ::
  "WishlistItem sort_impl \<Rightarrow> date_parser \<Rightarrow> WishlistItem list \<Rightarrow> WishlistItem list
   \<Rightarrow> WishlistItem list" where
  "mergeWishlists impl parse guestItems customerItems =
     jsSort impl (newestFirst parse) (map snd (mergedMap parse guestItems customerItems))"

definition findNewItems :: "WishlistItem list \<Rightarrow> WishlistItem list \<Rightarrow> WishlistItem list" where
  "findNewItems before after =
     (let beforeKeys = set (map createItemKey before)
      in filter (\<lambda>item. createItemKey item \<notin> beforeKeys) after)"



text \<open>
  \<open>parseFloat\<close> is a built-in as well: the parameter \<open>pf\<close> of the two price sorts.
  \<open>a.price ? \<dots> : \<dots>\<close> tests the property for truthiness; a price object is truthy, a
  missing or undefined property is not.
\<close>

type_synonym float_parser = "string \<Rightarrow> jsnum"

definition priceLowToHigh :: "float_parser \<Rightarrow> WishlistItem \<Rightarrow> WishlistItem \<Rightarrow> jsnum" where
  "priceLowToHigh pf a b =
     (let priceA = (case read (price a) of Some p \<Rightarrow> pf (amount p) | None \<Rightarrow> Infinity);
          priceB = (case read (price b) of Some p \<Rightarrow> pf (amount p) | None \<Rightarrow> Infinity)
      in jsMinus priceA priceB)"

definition sortByPriceLowToHigh ::
  "WishlistItem sort_impl \<Rightarrow> float_parser \<Rightarrow> WishlistItem list \<Rightarrow> WishlistItem list" where
  "sortByPriceLowToHigh impl pf items = jsSort impl (priceLowToHigh pf) items"

definition priceHighToLow :: "float_parser \<Rightarrow> WishlistItem \<Rightarrow> WishlistItem \<Rightarrow> jsnum" where
  "priceHighToLow pf a b =
     (let priceA = (case read (price a) of Some p \<Rightarrow> pf (amount p) | None \<Rightarrow> Finite 0);
          priceB = (case read (price b) of Some p \<Rightarrow> pf (amount p) | None \<Rightarrow> Finite 0)
      in jsMinus priceB priceA)"

definition sortByPriceHighToLow ::
  "WishlistItem sort_impl \<Rightarrow> float_parser \<Rightarrow> WishlistItem list \<Rightarrow> WishlistItem list" where
  "sortByPriceHighToLow impl pf items = jsSort impl (priceHighToLow pf) items"

text \<open>
  One instance of \<open>pf\<close>, for evaluating examples: plain decimal literals (an optional
  minus sign, digits, optionally a point and more digits), the form of a money amount.
  On these \<open>parseFloat\<close> gives the number written; every other string is NaN here.
\<close>

definition isDigit :: "char \<Rightarrow> bool" where
  "isDigit c = (digitVal c \<noteq> None)"

definition decimalValue :: "string \<Rightarrow> jsnum" where
  "decimalValue body =
     (let whole = takeWhile isDigit body; rest = dropWhile isDigit body in
      if whole = [] then NaN
      else (case rest of
              [] \<Rightarrow> (case digitsVal 0 whole of Some n \<Rightarrow> Finite (of_nat n) | None \<Rightarrow> NaN)
            | c # fracPart \<Rightarrow>
                if c = CHR ''.'' \<and> fracPart \<noteq> [] then
                  (case digitsVal 0 (whole @ fracPart) of
                     Some n \<Rightarrow> Finite (of_nat n / 10 ^ length fracPart)
                   | None \<Rightarrow> NaN)
                else NaN))"

definition parseDecimal :: float_parser where
  "parseDecimal s =
     (case s of
        [] \<Rightarrow> NaN
      | c # body \<Rightarrow>
          if c = CHR ''-'' then
            (case decimalValue body of Finite q \<Rightarrow> Finite (- q) | other \<Rightarrow> other)
          else decimalValue s)"

section \<open>Stored records and validation (utils/validation.ts)\<close>

text \<open>A value produced by \<open>JSON.parse\<close>. An object lists its properties; keys are unique.\<close>

datatype json =
    JNull
  | JBool bool
  | JNum rat
  | JStr string
  | JArr "json list"
  | JObj "(string \<times> json) list"

text \<open>\<open>obj[k]\<close> on a parsed value; \<open>None\<close> is \<open>undefined\<close>.\<close>

fun getProp :: "json \<Rightarrow> string \<Rightarrow> json option" where
  "getProp (JObj kvs) k = map_of kvs k"
| "getProp _ k = None"

fun truthy :: "json option \<Rightarrow> bool" where
  "truthy None = False"
| "truthy (Some JNull) = False"
| "truthy (Some (JBool b)) = b"
| "truthy (Some (JNum n)) = (n \<noteq> 0)"
| "truthy (Some (JStr s)) = (s \<noteq> [])"
| "truthy (Some (JArr _)) = True"
| "truthy (Some (JObj _)) = True"

fun typeof :: "json option \<Rightarrow> string" where
  "typeof None = ''undefined''"
| "typeof (Some JNull) = ''object''"
| "typeof (Some (JBool _)) = ''boolean''"
| "typeof (Some (JNum _)) = ''number''"
| "typeof (Some (JStr _)) = ''string''"
| "typeof (Some (JArr _)) = ''object''"
| "typeof (Some (JObj _)) = ''object''"

definition isValidWishlistItem :: "json \<Rightarrow> bool" where
  "isValidWishlistItem item =
     (if \<not> truthy (Some item) \<or> typeof (Some item) \<noteq> ''object'' then False
      else if \<not> truthy (getProp item ''productId'') \<or> typeof (getProp item ''productId'') \<noteq> ''string''
        then False
      else if \<not> truthy (getProp item ''productTitle'') \<or> typeof (getProp item ''productTitle'') \<noteq> ''string''
        then False
      else if \<not> truthy (getProp item ''addedAt'') \<or> typeof (getProp item ''addedAt'') \<noteq> ''string''
        then False
      else True)"

section \<open>The local store (utils/storage.ts)\<close>

text \<open>
  The records that \<open>getStoredItems\<close> returns are the parsed values themselves: the cast
  \<open>as WishlistItem[]\<close> checks nothing, and the validation looks at three properties only.
  So a collection at run time, in the store and in the provider, is a list of parsed records,
  and its properties are read with \<open>getProp\<close>.

  An item that the code builds itself has the type \<open>WishlistItem\<close>. In a collection it is
  the object \<open>toJson\<close> gives: its properties with a value. A property that holds
  \<open>undefined\<close> reads like an absent one and is dropped by \<open>JSON.stringify\<close>, and nothing
  in the store or the provider tells the two apart.
\<close>

definition jsonField :: "string \<Rightarrow> 'a optional \<Rightarrow> ('a \<Rightarrow> json) \<Rightarrow> (string \<times> json) list" where
  "jsonField k v enc = (case read v of None \<Rightarrow> [] | Some x \<Rightarrow> [(k, enc x)])"

definition imageJson :: "wishlist_image \<Rightarrow> json" where
  "imageJson i =
     JObj ((''url'', JStr (url i)) #
           (case altText i of None \<Rightarrow> [] | Some a \<Rightarrow> [(''altText'', JStr a)]))"

definition priceJson :: "wishlist_price \<Rightarrow> json" where
  "priceJson p = JObj [(''amount'', JStr (amount p)), (''currencyCode'', JStr (currencyCode p))]"

definition toJson :: "WishlistItem \<Rightarrow> json" where
  "toJson i =
     JObj ([(''productId'', JStr (productId i))]
           @ jsonField ''variantId'' (variantId i) JStr
           @ [(''productTitle'', JStr (productTitle i))]
           @ jsonField ''productHandle'' (productHandle i) JStr
           @ jsonField ''variantTitle'' (variantTitle i) (\<lambda>t. case t of None \<Rightarrow> JNull | Some s \<Rightarrow> JStr s)
           @ jsonField ''image'' (image_f i) imageJson
           @ jsonField ''price'' (price i) priceJson
           @ [(''addedAt'', JStr (addedAt i))])"

text \<open>
  What \<open>localStorage\<close> holds under the key \<open>wishbridge_items\<close>, by what \<open>getItem\<close> and
  \<open>JSON.parse\<close> make of it: no entry (\<open>getItem\<close> gives \<open>null\<close>), the empty string, a text
  that \<open>JSON.parse\<close> rejects, or a text that parses to a value. Writing a collection with
  \<open>JSON.stringify\<close> leaves a text that parses to the list of its records.
\<close>

datatype stored = NoEntry | EmptyText | Unparseable | Parsed json

text \<open>
  The browser's storage as the adapter sees it: whether \<open>window\<close> exists, whether the probe
  write of \<open>isStorageAvailable\<close> succeeds, whether \<open>getItem\<close> and \<open>setItem\<close> on the item key
  throw, and the two entries.
\<close>

record localStorage =
  hasWindow :: bool
  probeOk :: bool
  getItemThrows :: bool
  setItemThrows :: bool
  wishlistItems :: stored
  lastSyncTimestamp :: "string option"

definition isStorageAvailable :: "localStorage \<Rightarrow> bool" where
  "isStorageAvailable ls = (if \<not> hasWindow ls then False else probeOk ls)"

definition getStoredItems :: "localStorage \<Rightarrow> json list" where
  "getStoredItems ls =
     (if \<not> isStorageAvailable ls then []
      else if getItemThrows ls then []
      else (case wishlistItems ls of
              NoEntry \<Rightarrow> []
            | EmptyText \<Rightarrow> []
            | Unparseable \<Rightarrow> []
            | Parsed parsed \<Rightarrow>
                (case parsed of
                   JArr records \<Rightarrow> filter isValidWishlistItem records
                 | _ \<Rightarrow> [])))"

definition setStoredItems :: "json list \<Rightarrow> localStorage \<Rightarrow> localStorage" where
  "setStoredItems items ls =
     (if \<not> isStorageAvailable ls then ls
      else if setItemThrows ls then ls
      else ls\<lparr>wishlistItems := Parsed (JArr items)\<rparr>)"

definition clearStoredItems :: "localStorage \<Rightarrow> localStorage" where
  "clearStoredItems ls =
     (if \<not> isStorageAvailable ls then ls
      else ls\<lparr>wishlistItems := NoEntry, lastSyncTimestamp := None\<rparr>)"

text \<open>
  \<open>existing.productId === productId && existing.variantId === variantId\<close>, where the right
  sides are a string and a string or \<open>undefined\<close>: \<open>===\<close> holds exactly when the record's
  property is that string, or is absent where the right side is \<open>undefined\<close>. A stored
  \<open>null\<close> or number is equal to neither.
\<close>

definition sameEntry :: "string \<Rightarrow> string option \<Rightarrow> json \<Rightarrow> bool" where
  "sameEntry pid vid item =
     (getProp item ''productId'' = Some (JStr pid) \<and>
      getProp item ''variantId'' = map_option JStr vid)"

definition addStoredItem :: "WishlistItem \<Rightarrow> localStorage \<Rightarrow> json list \<times> localStorage" where
  "addStoredItem item ls =
     (let items = getStoredItems ls;
          exists = list_ex (sameEntry (productId item) (read (variantId item))) items
      in if exists then (items, ls)
         else (let newItems = items @ [toJson item] in (newItems, setStoredItems newItems ls)))"

definition removeStoredItem :: "string \<Rightarrow> string option \<Rightarrow> localStorage \<Rightarrow> json list \<times> localStorage" where
  "removeStoredItem pid vid ls =
     (let items = getStoredItems ls;
          newItems = filter (\<lambda>item. \<not> sameEntry pid vid item) items
      in (newItems, setStoredItems newItems ls))"

definition isItemStored :: "string \<Rightarrow> string option \<Rightarrow> localStorage \<Rightarrow> bool" where
  "isItemStored pid vid ls = list_ex (sameEntry pid vid) (getStoredItems ls)"

section \<open>The provider (components/WishlistProvider.tsx)\<close>

text \<open>The configuration is only read, so an optional property is what it reads as.\<close>

record WishBridgeConfig =
  apiUrl :: string
  apiKey :: "string option"
  shopDomain :: string
  customerId :: "string option"
  customerAccessToken :: "string option"
  enableGuestWishlist :: "bool option"
  enableAutoMerge :: "bool option"

record ProductInfo =
  p_id :: string
  p_title :: string
  p_handle :: "string optional"
  p_variantId :: "string optional"
  p_variantTitle :: "string option optional"
  p_image :: "wishlist_image optional"
  p_price :: "wishlist_price optional"

text \<open>
  The four \<open>useState\<close> cells of the provider. The collection holds records as they were
  parsed from the store or from a response, and the items that \<open>add\<close> built.
\<close>

record WishlistState =
  items :: "json list"
  isLoading :: bool
  isSyncing :: bool
  error :: "string option"

definition initialState :: WishlistState where
  "initialState = \<lparr> items = [], isLoading = True, isSyncing = False, error = None \<rparr>"

text \<open>\<open>SyncWishlistResponse\<close> and \<open>UpdateWishlistResponse\<close> have the same properties.\<close>

record WishlistResponse =
  success :: bool
  resp_items :: "json list option"
  resp_message :: "string option"
  resp_error :: "string option"

text \<open>
  What one \<open>fetch\<close> brings back: the promise rejects, or a response arrives with a status
  and a body; the body is \<open>None\<close> when \<open>res.json()\<close> rejects or gives no object, so that
  reading \<open>result.success\<close> throws.
\<close>

datatype fetched = Rejected | Replied nat "WishlistResponse option"

definition res_ok :: "nat \<Rightarrow> bool" where
  "res_ok status = (200 \<le> status \<and> status \<le> 299)"

definition msg_network :: string where "msg_network = ''Network error. Please try again.''"
definition msg_rateLimited :: string where "msg_rateLimited = ''Too many requests. Please try again later.''"
definition msg_syncFailed :: string where "msg_syncFailed = ''Failed to sync wishlist. Please try again.''"
definition msg_unknown :: string where "msg_unknown = ''An unexpected error occurred.''"

text \<open>A string used as a condition: \<open>undefined\<close> and the empty string are falsy.\<close>

fun given :: "string option \<Rightarrow> bool" where
  "given None = False"
| "given (Some s) = (s \<noteq> [])"

definition isGuest :: "WishBridgeConfig \<Rightarrow> bool" where
  "isGuest config = (\<not> given (customerId config))"

definition guestWishlistEnabled :: "WishBridgeConfig \<Rightarrow> bool" where
  "guestWishlistEnabled config = (case enableGuestWishlist config of None \<Rightarrow> True | Some b \<Rightarrow> b)"

definition autoMergeEnabled :: "WishBridgeConfig \<Rightarrow> bool" where
  "autoMergeEnabled config = (case enableAutoMerge config of None \<Rightarrow> True | Some b \<Rightarrow> b)"

text \<open>
  Every operation takes the state cells and the storage and returns them updated; the
  answer of the one \<open>fetch\<close> it may issue is the argument \<open>reply\<close>. \<open>finally\<close> blocks are
  the last update of each operation. In \<open>syncWishlist\<close>, \<open>add\<close> and \<open>remove\<close> the \<open>catch\<close>
  block is the branch of a rejected \<open>fetch\<close> or an unreadable body. In \<open>loadItems\<close> nothing
  inside the \<open>try\<close> block throws, since \<open>getStoredItems\<close> and \<open>syncWishlist\<close> catch their
  own errors, so its \<open>catch\<close> block has no branch here.
\<close>

definition syncWishlist ::
  "WishBridgeConfig \<Rightarrow> fetched \<Rightarrow> json list \<Rightarrow> WishlistState \<times> localStorage
   \<Rightarrow> WishlistState \<times> localStorage" where
  "syncWishlist config reply guestItems s =
     (case s of (st, ls) \<Rightarrow>
      if \<not> given (customerId config) \<or> \<not> given (apiKey config) then (st, ls)
      else
        (let st1 = st\<lparr>isSyncing := True, error := None\<rparr>;
             (st2, ls2) =
               (case reply of
                  Rejected \<Rightarrow> (st1\<lparr>error := Some msg_network\<rparr>, ls)
                | Replied status body \<Rightarrow>
                    if status = 429 then (st1\<lparr>error := Some msg_rateLimited\<rparr>, ls)
                    else (case body of
                            None \<Rightarrow> (st1\<lparr>error := Some msg_network\<rparr>, ls)
                          | Some result \<Rightarrow>
                              if \<not> res_ok status \<or> \<not> success result
                              then (st1\<lparr>error := Some (case resp_error result of
                                                          None \<Rightarrow> msg_syncFailed | Some e \<Rightarrow> e)\<rparr>, ls)
                              else (case resp_items result of
                                      Some merged \<Rightarrow> (st1\<lparr>items := merged\<rparr>, clearStoredItems ls)
                                    | None \<Rightarrow> (st1, ls))))
         in (st2\<lparr>isSyncing := False\<rparr>, ls2)))"

definition loadItems ::
  "WishBridgeConfig \<Rightarrow> fetched \<Rightarrow> WishlistState \<times> localStorage \<Rightarrow> WishlistState \<times> localStorage" where
  "loadItems config reply s =
     (case s of (st, ls) \<Rightarrow>
      let st0 = st\<lparr>isLoading := True, error := None\<rparr>;
          (st1, ls1) =
            (if isGuest config \<and> guestWishlistEnabled config
             then (st0\<lparr>items := getStoredItems ls\<rparr>, ls)
             else if \<not> isGuest config then
               (let storedItems = getStoredItems ls in
                if length storedItems > 0 \<and> autoMergeEnabled config
                then syncWishlist config reply storedItems (st0, ls)
                else (st0\<lparr>items := storedItems\<rparr>, ls))
             else (st0, ls))
      in (st1\<lparr>isLoading := False\<rparr>, ls1))"

text \<open>
  \<open>add\<close> builds the item with every property written out, so an optional property of the
  product that has no value becomes a property holding \<open>undefined\<close>. \<open>now\<close> is
  \<open>new Date().toISOString()\<close>.
\<close>

fun copied :: "'a optional \<Rightarrow> 'a optional" where
  "copied (Present v) = Present v"
| "copied _ = Undefined"

definition newItem :: "string \<Rightarrow> ProductInfo \<Rightarrow> WishlistItem" where
  "newItem now product =
     \<lparr> productId = p_id product,
       variantId = copied (p_variantId product),
       productTitle = p_title product,
       productHandle = copied (p_handle product),
       variantTitle = copied (p_variantTitle product),
       image_f = copied (p_image product),
       price = copied (p_price product),
       addedAt = now \<rparr>"

text \<open>The three updaters handed to \<open>setItems\<close>.\<close>

definition optimisticAdd :: "WishlistItem \<Rightarrow> json list \<Rightarrow> json list" where
  "optimisticAdd item prev =
     (let exists = list_ex (sameEntry (productId item) (read (variantId item))) prev
      in if exists then prev else toJson item # prev)"

definition rollbackAdd :: "WishlistItem \<Rightarrow> json list \<Rightarrow> json list" where
  "rollbackAdd item prev =
     filter (\<lambda>existing. \<not> sameEntry (productId item) (read (variantId item)) existing) prev"

definition optimisticRemove :: "string \<Rightarrow> string option \<Rightarrow> json list \<Rightarrow> json list" where
  "optimisticRemove pid vid prev = filter (\<lambda>item. \<not> sameEntry pid vid item) prev"

definition add ::
  "WishBridgeConfig \<Rightarrow> string \<Rightarrow> fetched \<Rightarrow> ProductInfo \<Rightarrow> WishlistState \<times> localStorage
   \<Rightarrow> WishlistState \<times> localStorage" where
  "add config now reply product s =
     (case s of (st, ls) \<Rightarrow>
      let item = newItem now product;
          st1 = st\<lparr>items := optimisticAdd item (items st)\<rparr>
      in if isGuest config \<and> guestWishlistEnabled config
         then (st1, snd (addStoredItem item ls))
         else if \<not> isGuest config \<and> given (apiKey config) then
           (case reply of
              Rejected \<Rightarrow>
                (st1\<lparr>items := rollbackAdd item (items st1), error := Some msg_network\<rparr>, ls)
            | Replied status body \<Rightarrow>
                (case body of
                   None \<Rightarrow>
                     (st1\<lparr>items := rollbackAdd item (items st1), error := Some msg_network\<rparr>, ls)
                 | Some result \<Rightarrow>
                     if \<not> res_ok status \<or> \<not> success result
                     then (st1\<lparr>items := rollbackAdd item (items st1),
                                error := Some (case resp_error result of
                                                 None \<Rightarrow> msg_unknown | Some e \<Rightarrow> e)\<rparr>, ls)
                     else (st1, ls)))
         else (st1, ls))"

definition remove ::
  "WishBridgeConfig \<Rightarrow> fetched \<Rightarrow> string \<Rightarrow> string option \<Rightarrow> WishlistState \<times> localStorage
   \<Rightarrow> WishlistState \<times> localStorage" where
  "remove config reply pid vid s =
     (case s of (st, ls) \<Rightarrow>
      let st1 = st\<lparr>items := optimisticRemove pid vid (items st)\<rparr>
      in if isGuest config \<and> guestWishlistEnabled config
         then (st1, snd (removeStoredItem pid vid ls))
         else if \<not> isGuest config \<and> given (apiKey config) then
           (case reply of
              Rejected \<Rightarrow> (st1\<lparr>error := Some msg_network\<rparr>, ls)
            | Replied status body \<Rightarrow>
                (case body of
                   None \<Rightarrow> (st1\<lparr>error := Some msg_network\<rparr>, ls)
                 | Some result \<Rightarrow>
                     if \<not> res_ok status \<or> \<not> success result
                     then (st1\<lparr>error := Some (case resp_error result of
                                                None \<Rightarrow> msg_unknown | Some e \<Rightarrow> e)\<rparr>, ls)
                     else (st1, ls)))
         else (st1, ls))"

definition isWishlisted :: "WishlistState \<Rightarrow> string \<Rightarrow> string option \<Rightarrow> bool" where
  "isWishlisted st pid vid = list_ex (sameEntry pid vid) (items st)"

section \<open>Predicates of the properties, invariants and example data\<close>

text \<open>
  The key string identifies the product unambiguously within a list: two items with the
  same key have the same \<open>productId\<close>. It fails only when the separator \<open>:\<close> can be read at
  two places, as in \<open>a:b\<close> + \<open>default\<close> against \<open>a\<close> + \<open>b:default\<close>.
\<close>

definition unambiguousKeys :: "WishlistItem list \<Rightarrow> bool" where
  "unambiguousKeys xs =
     (\<forall>x\<in>set xs. \<forall>y\<in>set xs. createItemKey x = createItemKey y \<longrightarrow> productId x = productId y)"

text \<open>Every entry of the map is stored under its own key and has the product of an input item.\<close>

definition keyed :: "WishlistItem list \<Rightarrow> item_map \<Rightarrow> bool" where
  "keyed xs m = (\<forall>(k, e)\<in>set m. createItemKey e = k \<and>
                   (\<exists>x\<in>set xs. createItemKey x = k \<and> productId x = productId e))"

text \<open>No item of \<open>gs\<close> is earlier than the entry the map holds under its key.\<close>

definition settled :: "date_parser \<Rightarrow> WishlistItem list \<Rightarrow> item_map \<Rightarrow> bool" where
  "settled parse gs m =
     (\<forall>a\<in>set gs. \<exists>e. map_of m (createItemKey a) = Some e \<and> \<not> dateLess parse (addedAt a) (addedAt e))"

definition exGuestP1 :: WishlistItem where
  "exGuestP1 = \<lparr> productId = ''p1'', variantId = Absent, productTitle = ''Guest title'',
     productHandle = Absent, variantTitle = Absent, image_f = Absent, price = Absent,
     addedAt = ''2024-01-10'' \<rparr>"

definition exCustomerP1 :: WishlistItem where
  "exCustomerP1 = \<lparr> productId = ''p1'', variantId = Absent, productTitle = ''Customer title'',
     productHandle = Absent, variantTitle = Absent, image_f = Absent,
     price = Present \<lparr> amount = ''10.00'', currencyCode = ''USD'' \<rparr>,
     addedAt = ''2024-01-15'' \<rparr>"

definition exGuestAB :: WishlistItem where
  "exGuestAB = \<lparr> productId = ''a:b'', variantId = Absent, productTitle = ''T'',
     productHandle = Absent, variantTitle = Absent, image_f = Absent, price = Absent,
     addedAt = ''2024-01-10'' \<rparr>"

definition exCustomerA :: WishlistItem where
  "exCustomerA = \<lparr> productId = ''a'', variantId = Present ''b:default'', productTitle = ''T'',
     productHandle = Absent, variantTitle = Absent, image_f = Absent, price = Absent,
     addedAt = ''2024-01-15'' \<rparr>"

text \<open>A property that holds a non-empty string.\<close>

fun nonEmptyString :: "json option \<Rightarrow> bool" where
  "nonEmptyString (Some (JStr s)) = (s \<noteq> [])"
| "nonEmptyString _ = False"

definition wellFormedRecord :: "json \<Rightarrow> bool" where
  "wellFormedRecord r =
     (nonEmptyString (getProp r ''productId'') \<and> nonEmptyString (getProp r ''productTitle'') \<and>
      nonEmptyString (getProp r ''addedAt''))"

text \<open>The validity the specification words: the third condition is a parseable \<open>addedAt\<close>.\<close>

fun parseableString :: "date_parser \<Rightarrow> json option \<Rightarrow> bool" where
  "parseableString parse (Some (JStr s)) = (parse s \<noteq> None)"
| "parseableString parse _ = False"

definition specValidRecord :: "date_parser \<Rightarrow> json \<Rightarrow> bool" where
  "specValidRecord parse r =
     (nonEmptyString (getProp r ''productId'') \<and> nonEmptyString (getProp r ''productTitle'') \<and>
      parseableString parse (getProp r ''addedAt''))"




definition exRecord1 :: json where
  "exRecord1 = JObj [(''productId'', JStr ''p1''), (''productTitle'', JStr ''Product A''),
                     (''addedAt'', JStr ''2024-01-10'')]"

definition exRecord2 :: json where
  "exRecord2 = JObj [(''productId'', JStr ''p2''), (''variantId'', JStr ''v1''),
                     (''productTitle'', JStr ''Product B''), (''addedAt'', JStr ''2024-01-11'')]"

definition exRecord3 :: json where
  "exRecord3 = JObj [(''productId'', JStr ''p3''), (''productTitle'', JStr ''Product C''),
                     (''addedAt'', JStr ''2024-01-12'')]"

definition exCorruptRecord :: json where
  "exCorruptRecord = JObj [(''productId'', JStr ''p4''), (''addedAt'', JStr ''2024-01-13'')]"

definition exBadDateRecord :: json where
  "exBadDateRecord = JObj [(''productId'', JStr ''p5''), (''productTitle'', JStr ''Product E''),
                           (''addedAt'', JStr ''not-a-date'')]"

definition exStore :: "json list \<Rightarrow> localStorage" where
  "exStore records = \<lparr> hasWindow = True, probeOk = True, getItemThrows = False,
     setItemThrows = False, wishlistItems = Parsed (JArr records), lastSyncTimestamp = None \<rparr>"

text \<open>
  A single-item update has failed: the transport failed, the body could not be read, the
  status is not 2xx, or the answer says \<open>success: false\<close>. A merge-sync has failed in the
  same cases and when the status is 429.
\<close>

definition updateFailed :: "fetched \<Rightarrow> bool" where
  "updateFailed reply =
     (case reply of
        Rejected \<Rightarrow> True
      | Replied status body \<Rightarrow>
          (case body of None \<Rightarrow> True | Some result \<Rightarrow> \<not> res_ok status \<or> \<not> success result))"

definition syncFailed :: "fetched \<Rightarrow> bool" where
  "syncFailed reply =
     (case reply of
        Rejected \<Rightarrow> True
      | Replied status body \<Rightarrow>
          status = 429 \<or>
          (case body of None \<Rightarrow> True | Some result \<Rightarrow> \<not> res_ok status \<or> \<not> success result))"

definition exIdentified :: WishBridgeConfig where
  "exIdentified = \<lparr> apiUrl = ''https://wishbridge.example'', apiKey = Some ''key'',
     shopDomain = ''my-store.myshopify.com'', customerId = Some ''gid://shopify/Customer/1'',
     customerAccessToken = None, enableGuestWishlist = None, enableAutoMerge = None \<rparr>"

definition exFailure :: WishlistResponse where
  "exFailure = \<lparr> success = False, resp_items = None, resp_message = None, resp_error = None \<rparr>"

definition exProductP1 :: ProductInfo where
  "exProductP1 = \<lparr> p_id = ''p1'', p_title = ''Product A'', p_handle = Absent,
     p_variantId = Absent, p_variantTitle = Absent, p_image = Absent, p_price = Absent \<rparr>"

definition exFreeP2 :: WishlistItem where
  "exFreeP2 = \<lparr> productId = ''p2'', variantId = Absent, productTitle = ''Free sample'',
     productHandle = Absent, variantTitle = Absent, image_f = Absent,
     price = Present \<lparr> amount = ''0.00'', currencyCode = ''USD'' \<rparr>,
     addedAt = ''2024-01-12'' \<rparr>"

definition exReady :: "json list \<Rightarrow> WishlistState" where
  "exReady xs = \<lparr> items = xs, isLoading = False, isSyncing = False, error = None \<rparr>"


text \<open>No item without a price comes before an item with a price.\<close>

definition hasPrice :: "WishlistItem \<Rightarrow> bool" where
  "hasPrice x = (read (price x) \<noteq> None)"

definition unpricedLast :: "WishlistItem list \<Rightarrow> bool" where
  "unpricedLast xs = list_all (\<lambda>x. \<not> hasPrice x) (dropWhile hasPrice xs)"

definition exCustomerP1Early :: WishlistItem where
  "exCustomerP1Early = \<lparr> productId = ''p1'', variantId = Absent, productTitle = ''Customer title'',
     productHandle = Absent, variantTitle = Absent, image_f = Absent, price = Absent,
     addedAt = ''2024-01-05'' \<rparr>"

definition exGuestP1Late :: WishlistItem where
  "exGuestP1Late = \<lparr> productId = ''p1'', variantId = Absent, productTitle = ''Guest title'',
     productHandle = Absent, variantTitle = Absent, image_f = Absent, price = Absent,
     addedAt = ''2024-01-20'' \<rparr>"


text \<open>
  The price the two comparators give an item, and the numbers on which their differences
  order consistently: the finite ones and \<open>Infinity\<close>.
\<close>

definition ascPrice :: "float_parser \<Rightarrow> WishlistItem \<Rightarrow> jsnum" where
  "ascPrice pf a = (case read (price a) of Some p \<Rightarrow> pf (amount p) | None \<Rightarrow> Infinity)"

definition descPrice :: "float_parser \<Rightarrow> WishlistItem \<Rightarrow> jsnum" where
  "descPrice pf a = (case read (price a) of Some p \<Rightarrow> pf (amount p) | None \<Rightarrow> Finite 0)"

fun aboveAll :: "jsnum \<Rightarrow> bool" where
  "aboveAll (Finite q) = True"
| "aboveAll Infinity = True"
| "aboveAll _ = False"

section \<open>Facts about sorting and the merge map\<close>


lemma set_insertSorted: "set (insertSorted cmp x ys) = insert x (set ys)"
  by (induction ys) auto

lemma mset_insertSorted: "mset (insertSorted cmp x ys) = add_mset x (mset ys)"
  by (induction ys) auto

lemma mset_stableSort: "mset (stableSort cmp xs) = mset xs"
  unfolding stableSort_def by (induction xs) (simp_all add: mset_insertSorted)

lemma mset_pick:
  assumes "i < length xs"
  shows "mset (xs ! i # take i xs @ drop (Suc i) xs) = mset xs"
proof -
  have "xs = take i xs @ xs ! i # drop (Suc i) xs"
    using assms by (rule id_take_nth_drop)
  then have "mset xs = mset (take i xs @ xs ! i # drop (Suc i) xs)" by simp
  then show ?thesis by simp
qed

lemma mset_permuteBy: "mset (permuteBy ks xs) = mset xs"
proof (induction ks arbitrary: xs)
  case Nil
  show ?case by simp
next
  case (Cons k ks)
  show ?case
  proof (cases "xs = []")
    case True
    then show ?thesis by simp
  next
    case False
    then have i: "k mod length xs < length xs" by simp
    from mset_pick[OF i] Cons.IH[of "take (k mod length xs) xs @ drop (Suc (k mod length xs)) xs"]
    show ?thesis using False by (simp add: Let_def)
  qed
qed

lemma mset_jsSort: "mset (jsSort impl cmp xs) = mset xs"
  by (simp add: jsSort_def mset_stableSort mset_permuteBy)

lemma set_jsSort: "set (jsSort impl cmp xs) = set xs"
  using mset_jsSort[of impl cmp xs] by (rule mset_eq_setD)

lemma length_jsSort: "length (jsSort impl cmp xs) = length xs"
  using mset_jsSort[of impl cmp xs] by (rule mset_eq_length)

lemma distinct_map_jsSort: "distinct (map f (jsSort impl cmp xs)) \<longleftrightarrow> distinct (map f xs)"
proof -
  have "mset (map f (jsSort impl cmp xs)) = mset (map f xs)"
    by (simp add: mset_jsSort)
  then show ?thesis by (rule mset_eq_imp_distinct_iff)
qed

lemma jsSort_single: "jsSort impl cmp [x] = [x]"
proof -
  have "mset (jsSort impl cmp [x]) = {#x#}" by (simp add: mset_jsSort)
  then show ?thesis by (simp add: mset_single_iff_right)
qed

lemma distinct_addCustomerItem:
  "distinct (map fst m) \<Longrightarrow> distinct (map fst (addCustomerItem c m))"
  unfolding addCustomerItem_def by (rule AList.distinct_update)

lemma distinct_seed:
  "distinct (map fst m) \<Longrightarrow> distinct (map fst (fold addCustomerItem cs m))"
  by (induction cs arbitrary: m) (simp_all add: distinct_addCustomerItem)

lemma distinct_addGuestItem:
  "distinct (map fst m) \<Longrightarrow> distinct (map fst (addGuestItem parse g m))"
  unfolding addGuestItem_def Let_def
  by (auto split: option.splits intro: AList.distinct_update)

lemma distinct_guestFold:
  "distinct (map fst m) \<Longrightarrow> distinct (map fst (fold (addGuestItem parse) gs m))"
  by (induction gs arbitrary: m) (simp_all add: distinct_addGuestItem)

lemma distinct_mergedMap: "distinct (map fst (mergedMap parse gs cs))"
  unfolding mergedMap_def by (simp add: distinct_guestFold distinct_seed)

lemma map_of_addCustomerItem:
  "map_of (addCustomerItem c m) k = (if k = createItemKey c then Some c else map_of m k)"
  unfolding addCustomerItem_def by (simp add: AList.update_conv')

lemma map_of_seed_other:
  "k \<notin> createItemKey ` set cs \<Longrightarrow> map_of (fold addCustomerItem cs m) k = map_of m k"
  by (induction cs arbitrary: m) (auto simp: map_of_addCustomerItem)

lemma map_of_seed:
  "distinct (map createItemKey cs) \<Longrightarrow> r \<in> set cs \<Longrightarrow>
   map_of (fold addCustomerItem cs m) (createItemKey r) = Some r"
proof (induction cs arbitrary: m)
  case Nil
  then show ?case by simp
next
  case (Cons c cs)
  show ?case
  proof (cases "r = c")
    case True
    with Cons.prems have "createItemKey r \<notin> createItemKey ` set cs" by auto
    then show ?thesis using True by (simp add: map_of_seed_other map_of_addCustomerItem)
  next
    case False
    with Cons show ?thesis by simp
  qed
qed

lemma map_of_seed_dom:
  "map_of (fold addCustomerItem cs m) k = None \<longleftrightarrow> map_of m k = None \<and> k \<notin> createItemKey ` set cs"
  by (induction cs arbitrary: m) (auto simp: map_of_addCustomerItem)

lemma map_of_addGuestItem:
  "map_of (addGuestItem parse g m) k =
     (if k = createItemKey g then
        (case map_of m k of None \<Rightarrow> Some g
         | Some e \<Rightarrow> if dateLess parse (addedAt g) (addedAt e)
                     then Some ((spread e g)\<lparr>addedAt := addedAt g\<rparr>) else Some e)
      else map_of m k)"
  unfolding addGuestItem_def Let_def
  by (auto simp: AList.update_conv' split: option.splits)

lemma map_of_guestFold_other:
  "k \<notin> createItemKey ` set gs \<Longrightarrow> map_of (fold (addGuestItem parse) gs m) k = map_of m k"
  by (induction gs arbitrary: m) (auto simp: map_of_addGuestItem)

lemma map_of_guestFold:
  "distinct (map createItemKey gs) \<Longrightarrow> l \<in> set gs \<Longrightarrow>
   map_of (fold (addGuestItem parse) gs m) (createItemKey l) =
     (case map_of m (createItemKey l) of None \<Rightarrow> Some l
      | Some e \<Rightarrow> if dateLess parse (addedAt l) (addedAt e)
                  then Some ((spread e l)\<lparr>addedAt := addedAt l\<rparr>) else Some e)"
proof (induction gs arbitrary: m)
  case Nil
  then show ?case by simp
next
  case (Cons g gs)
  show ?case
  proof (cases "l = g")
    case True
    with Cons.prems have "createItemKey l \<notin> createItemKey ` set gs" by auto
    then show ?thesis using True
      by (auto simp add: map_of_guestFold_other map_of_addGuestItem split: option.splits)
  next
    case False
    with Cons.prems have "createItemKey l \<noteq> createItemKey g" "l \<in> set gs" "distinct (map createItemKey gs)"
      by (auto simp: image_iff)
    then show ?thesis using Cons.IH[of "addGuestItem parse g m"] by (simp add: map_of_addGuestItem)
  qed
qed

lemma set_mergeWishlists:
  "set (mergeWishlists impl parse gs cs) = snd ` set (mergedMap parse gs cs)"
  unfolding mergeWishlists_def by (simp add: set_jsSort)

lemma mem_mergeWishlists:
  "e \<in> set (mergeWishlists impl parse gs cs) \<longleftrightarrow> (\<exists>k. map_of (mergedMap parse gs cs) k = Some e)"
proof -
  have "e \<in> snd ` set (mergedMap parse gs cs) \<longleftrightarrow> (\<exists>k. (k, e) \<in> set (mergedMap parse gs cs))"
    by force
  then show ?thesis
    using distinct_mergedMap[of parse gs cs] by (simp add: set_mergeWishlists)
qed


lemma set_update_subset: "set (AList.update k v al) \<subseteq> insert (k, v) (set al)"
  by (induction al) auto

lemma createItemKey_spread:
  assumes "productId e = productId g" and "createItemKey e = createItemKey g"
  shows "createItemKey ((spread e g)\<lparr>addedAt := a\<rparr>) = createItemKey g"
proof -
  from assms have suffix:
    "(case read (variantId e) of None \<Rightarrow> ''default'' | Some v \<Rightarrow> v) =
     (case read (variantId g) of None \<Rightarrow> ''default'' | Some v \<Rightarrow> v)"
    by (simp add: createItemKey_def)
  show ?thesis
    by (cases "variantId g") (simp_all add: createItemKey_def spread_def suffix)
qed

lemma keyed_update:
  assumes "keyed xs m" and "createItemKey v = k"
    and "\<exists>x\<in>set xs. createItemKey x = k \<and> productId x = productId v"
  shows "keyed xs (AList.update k v m)"
  using assms set_update_subset[of k v m] unfolding keyed_def by blast

lemma keyed_addCustomerItem:
  "keyed xs m \<Longrightarrow> c \<in> set xs \<Longrightarrow> keyed xs (addCustomerItem c m)"
  unfolding addCustomerItem_def by (rule keyed_update) auto

lemma keyed_seed:
  "keyed xs m \<Longrightarrow> set cs \<subseteq> set xs \<Longrightarrow> keyed xs (fold addCustomerItem cs m)"
  by (induction cs arbitrary: m) (simp_all add: keyed_addCustomerItem)

lemma keyed_addGuestItem:
  assumes "keyed xs m" and "g \<in> set xs" and "unambiguousKeys xs"
  shows "keyed xs (addGuestItem parse g m)"
proof (cases "map_of m (createItemKey g)")
  case None
  then have "addGuestItem parse g m = AList.update (createItemKey g) g m"
    by (simp add: addGuestItem_def)
  with assms show ?thesis by (auto intro!: keyed_update)
next
  case (Some e)
  then have mem: "(createItemKey g, e) \<in> set m" by (rule map_of_SomeD)
  with assms(1) obtain x where x: "createItemKey e = createItemKey g" "x \<in> set xs"
    "createItemKey x = createItemKey g" "productId x = productId e"
    unfolding keyed_def by blast
  with assms(2,3) have pid: "productId e = productId g"
    unfolding unambiguousKeys_def by metis
  show ?thesis
  proof (cases "dateLess parse (addedAt g) (addedAt e)")
    case True
    then have eq: "addGuestItem parse g m =
        AList.update (createItemKey g) ((spread e g)\<lparr>addedAt := addedAt g\<rparr>) m"
      using Some by (simp add: addGuestItem_def)
    have "productId ((spread e g)\<lparr>addedAt := addedAt g\<rparr>) = productId g"
      by (simp add: spread_def)
    then show ?thesis
      unfolding eq using assms(1,2) createItemKey_spread[OF pid x(1)]
      by (intro keyed_update) auto
  next
    case False
    then show ?thesis using Some assms(1) by (simp add: addGuestItem_def)
  qed
qed

lemma keyed_guestFold:
  "keyed xs m \<Longrightarrow> set gs \<subseteq> set xs \<Longrightarrow> unambiguousKeys xs \<Longrightarrow>
   keyed xs (fold (addGuestItem parse) gs m)"
  by (induction gs arbitrary: m) (simp_all add: keyed_addGuestItem)

lemma keyed_mergedMap:
  "unambiguousKeys (gs @ cs) \<Longrightarrow> keyed (gs @ cs) (mergedMap parse gs cs)"
  unfolding mergedMap_def
  by (intro keyed_guestFold keyed_seed) (auto simp: keyed_def)

lemma keyed_key:
  "keyed xs m \<Longrightarrow> map_of m k = Some e \<Longrightarrow> createItemKey e = k"
  unfolding keyed_def by (auto dest: map_of_SomeD)

lemma dateLess_trans:
  "dateLess parse a b \<Longrightarrow> dateLess parse b c \<Longrightarrow> dateLess parse a c"
  unfolding dateLess_def by (auto split: option.splits)

lemma dateLess_irrefl: "\<not> dateLess parse a a"
  unfolding dateLess_def by (auto split: option.splits)

lemma settled_addGuestItem:
  assumes "settled parse gs m"
  shows "settled parse (g # gs) (addGuestItem parse g m)"
  unfolding settled_def
proof
  fix a assume a: "a \<in> set (g # gs)"
  show "\<exists>e. map_of (addGuestItem parse g m) (createItemKey a) = Some e \<and>
            \<not> dateLess parse (addedAt a) (addedAt e)"
  proof (cases "createItemKey a = createItemKey g")
    case False
    with a have "a \<in> set gs" by auto
    with assms False show ?thesis by (simp add: settled_def map_of_addGuestItem)
  next
    case same: True
    show ?thesis
    proof (cases "map_of m (createItemKey g)")
      case None
      with assms same a have "a = g" by (auto simp: settled_def)
      with None show ?thesis by (simp add: map_of_addGuestItem dateLess_irrefl)
    next
      case (Some e)
      have old: "\<not> dateLess parse (addedAt a) (addedAt e)" if "a \<in> set gs"
        using assms that same Some by (auto simp: settled_def)
      show ?thesis
      proof (cases "dateLess parse (addedAt g) (addedAt e)")
        case True
        have "\<not> dateLess parse (addedAt a) (addedAt g)"
        proof (cases "a = g")
          case True then show ?thesis by (simp add: dateLess_irrefl)
        next
          case False
          with a have "a \<in> set gs" by simp
          from old[OF this] True show ?thesis by (blast dest: dateLess_trans)
        qed
        with True Some same show ?thesis by (simp add: map_of_addGuestItem)
      next
        case False
        have "\<not> dateLess parse (addedAt a) (addedAt e)"
          using a old False by auto
        with False Some same show ?thesis by (simp add: map_of_addGuestItem)
      qed
    qed
  qed
qed

lemma settled_guestFold:
  "settled parse earlier m \<Longrightarrow> settled parse (rev gs @ earlier) (fold (addGuestItem parse) gs m)"
proof (induction gs arbitrary: m earlier)
  case Nil
  then show ?case by simp
next
  case (Cons g gs)
  from Cons.IH[OF settled_addGuestItem[OF Cons.prems, of g]] show ?case by simp
qed

lemma settled_mergedMap: "settled parse gs (mergedMap parse gs cs)"
proof -
  have "settled parse [] (fold addCustomerItem cs [])" by (simp add: settled_def)
  from settled_guestFold[OF this, of gs] show ?thesis
    by (simp add: settled_def mergedMap_def)
qed

lemma addGuestItem_settled:
  "map_of m (createItemKey g) = Some e \<Longrightarrow> \<not> dateLess parse (addedAt g) (addedAt e) \<Longrightarrow>
   addGuestItem parse g m = m"
  by (simp add: addGuestItem_def)

lemma guestFold_settled: "settled parse gs m \<Longrightarrow> fold (addGuestItem parse) gs m = m"
  by (induction gs) (auto simp: settled_def addGuestItem_settled)

lemma keyed_map_keys: "keyed xs m \<Longrightarrow> map createItemKey (map snd m) = map fst m"
  unfolding keyed_def by (induction m) auto






lemmas parseIsoDay_eval = parseIsoDay_def digitVal_def daysFromCivil_def daysInMonth_def

lemmas merge_eval = mergeWishlists_def mergedMap_def addGuestItem_def addCustomerItem_def
  createItemKey_def spread_def dateLess_def jsSort_single length_jsSort set_jsSort

section \<open>Merging: the entry of a key that both collections hold\<close>

text \<open>
  C1, as amended. Let \<open>local\<close> and \<open>remote\<close> each hold every key once, and let the local item
  \<open>l\<close> and the remote item \<open>r\<close> share a key. The merge stores one entry \<open>e\<close> under that key and
  returns it. When \<open>l\<close> is strictly earlier than \<open>r\<close>, \<open>e\<close> is the local item completed by the
  remote one: \<open>productId\<close>, \<open>productTitle\<close> and \<open>addedAt\<close> are those of \<open>l\<close>, and each optional
  field (\<open>variantId\<close>, \<open>productHandle\<close>, \<open>variantTitle\<close>, \<open>image\<close>, \<open>price\<close>) is the one of \<open>l\<close>
  when \<open>l\<close> has the property and the one of \<open>r\<close> otherwise. In every other case (equal
  timestamps, a later local one, an unparseable one) \<open>e\<close> is \<open>r\<close> unchanged.
\<close>

theorem mergeWishlists_shared_key_entry:
  assumes "distinct (map createItemKey local)" and "distinct (map createItemKey remote)"
    and "l \<in> set local" and "r \<in> set remote" and "createItemKey l = createItemKey r"
  shows "\<exists>e\<in>set (mergeWishlists impl parse local remote).
           map_of (mergedMap parse local remote) (createItemKey r) = Some e \<and>
           (if dateLess parse (addedAt l) (addedAt r)
            then productId e = productId l \<and> productTitle e = productTitle l \<and>
                 addedAt e = addedAt l \<and>
                 variantId e = over (variantId r) (variantId l) \<and>
                 productHandle e = over (productHandle r) (productHandle l) \<and>
                 variantTitle e = over (variantTitle r) (variantTitle l) \<and>
                 image_f e = over (image_f r) (image_f l) \<and>
                 price e = over (price r) (price l)
            else e = r)"
proof -
  let ?k = "createItemKey r"
  let ?e = "if dateLess parse (addedAt l) (addedAt r)
            then (spread r l)\<lparr>addedAt := addedAt l\<rparr> else r"
  have seed: "map_of (fold addCustomerItem remote []) ?k = Some r"
    using assms(2,4) by (rule map_of_seed)
  have entry: "map_of (mergedMap parse local remote) ?k = Some ?e"
    unfolding mergedMap_def
    using map_of_guestFold[OF assms(1,3), of parse "fold addCustomerItem remote []"] seed assms(5)
    by simp
  then have "?e \<in> set (mergeWishlists impl parse local remote)"
    unfolding mem_mergeWishlists by blast
  moreover have "if dateLess parse (addedAt l) (addedAt r)
            then productId ?e = productId l \<and> productTitle ?e = productTitle l \<and>
                 addedAt ?e = addedAt l \<and>
                 variantId ?e = over (variantId r) (variantId l) \<and>
                 productHandle ?e = over (productHandle r) (productHandle l) \<and>
                 variantTitle ?e = over (variantTitle r) (variantTitle l) \<and>
                 image_f ?e = over (image_f r) (image_f l) \<and>
                 price ?e = over (price r) (price l)
            else ?e = r"
    by (simp add: spread_def)
  ultimately show ?thesis using entry by blast
qed

text \<open>
  The theorem at the guest item of 10 January and the customer item of 15 January for the
  same product: the merged entry has the guest's title and date and the customer's price.
\<close>

theorem mergeWishlists_shared_key_entry_witness:
  "distinct (map createItemKey [exGuestP1]) \<and> distinct (map createItemKey [exCustomerP1])
   \<and> createItemKey exGuestP1 = createItemKey exCustomerP1
   \<and> dateLess parseIsoDay (addedAt exGuestP1) (addedAt exCustomerP1)
   \<and> (\<exists>e\<in>set (mergeWishlists pickFirst parseIsoDay [exGuestP1] [exCustomerP1]).
        productTitle e = ''Guest title'' \<and> addedAt e = ''2024-01-10'' \<and>
        price e = Present \<lparr> amount = ''10.00'', currencyCode = ''USD'' \<rparr>)"
proof -
  have k: "createItemKey exGuestP1 = createItemKey exCustomerP1"
    by (simp add: createItemKey_def exGuestP1_def exCustomerP1_def)
  have d: "dateLess parseIsoDay (addedAt exGuestP1) (addedAt exCustomerP1)"
    by (simp add: dateLess_def parseIsoDay_eval exGuestP1_def exCustomerP1_def)
  have f: "productTitle exGuestP1 = ''Guest title''" "addedAt exGuestP1 = ''2024-01-10''"
    "over (price exCustomerP1) (price exGuestP1) = Present \<lparr> amount = ''10.00'', currencyCode = ''USD'' \<rparr>"
    by (simp_all add: exGuestP1_def exCustomerP1_def)
  from mergeWishlists_shared_key_entry[of "[exGuestP1]" "[exCustomerP1]" exGuestP1 exCustomerP1 pickFirst parseIsoDay] k d f
  show ?thesis by auto
qed

text \<open>
  C1 as it was stated fails: with the local item strictly earlier, the title of the merged
  entry is the local one, not the remote one.
\<close>

theorem mergeWishlists_title_from_local:
  "createItemKey exGuestP1 = createItemKey exCustomerP1
   \<and> dateLess parseIsoDay (addedAt exGuestP1) (addedAt exCustomerP1)
   \<and> mergeWishlists pickFirst parseIsoDay [exGuestP1] [exCustomerP1] = [exGuestP1\<lparr>price := price exCustomerP1\<rparr>]
   \<and> productTitle (exGuestP1\<lparr>price := price exCustomerP1\<rparr>) \<noteq> productTitle exCustomerP1"
  by (simp add: merge_eval parseIsoDay_eval exGuestP1_def exCustomerP1_def)

section \<open>Merging: the earliest timestamp\<close>

text \<open>
  C4, as amended. Let \<open>local\<close> and \<open>remote\<close> each hold every key once, and let the local
  item \<open>l\<close> and the remote item \<open>r\<close> share a key and have parseable timestamps \<open>t_l\<close> and
  \<open>t_r\<close>. Then the entry that the merge stores under that key, and returns, has the timestamp
  \<open>min t_l t_r\<close>.
\<close>

theorem mergeWishlists_earliest_addedAt:
  assumes "distinct (map createItemKey local)" and "distinct (map createItemKey remote)"
    and "l \<in> set local" and "r \<in> set remote" and "createItemKey l = createItemKey r"
    and "parse (addedAt l) = Some t_l" and "parse (addedAt r) = Some t_r"
  shows "\<exists>e\<in>set (mergeWishlists impl parse local remote).
           map_of (mergedMap parse local remote) (createItemKey r) = Some e \<and>
           parse (addedAt e) = Some (min t_l t_r)"
proof -
  let ?e = "if dateLess parse (addedAt l) (addedAt r)
            then (spread r l)\<lparr>addedAt := addedAt l\<rparr> else r"
  have seed: "map_of (fold addCustomerItem remote []) (createItemKey r) = Some r"
    using assms(2,4) by (rule map_of_seed)
  have entry: "map_of (mergedMap parse local remote) (createItemKey r) = Some ?e"
    unfolding mergedMap_def
    using map_of_guestFold[OF assms(1,3), of parse "fold addCustomerItem remote []"] seed assms(5)
    by simp
  then have "?e \<in> set (mergeWishlists impl parse local remote)"
    unfolding mem_mergeWishlists by blast
  moreover have "parse (addedAt ?e) = Some (min t_l t_r)"
    using assms(6,7) by (auto simp: dateLess_def spread_def min_def)
  ultimately show ?thesis using entry by blast
qed

text \<open>
  The theorem at the guest item of 10 January and the customer item of 15 January: the
  merged entry carries 10 January.
\<close>

theorem mergeWishlists_earliest_addedAt_witness:
  "distinct (map createItemKey [exGuestP1]) \<and> distinct (map createItemKey [exCustomerP1])
   \<and> createItemKey exGuestP1 = createItemKey exCustomerP1
   \<and> parseIsoDay (addedAt exGuestP1) = Some 1704844800000
   \<and> parseIsoDay (addedAt exCustomerP1) = Some 1705276800000
   \<and> (\<exists>e\<in>set (mergeWishlists pickFirst parseIsoDay [exGuestP1] [exCustomerP1]).
         map_of (mergedMap parseIsoDay [exGuestP1] [exCustomerP1]) (createItemKey exCustomerP1) = Some e \<and>
         parseIsoDay (addedAt e) = Some 1704844800000)"
proof -
  have k: "createItemKey exGuestP1 = createItemKey exCustomerP1"
    by (simp add: createItemKey_def exGuestP1_def exCustomerP1_def)
  have htl: "parseIsoDay (addedAt exGuestP1) = Some 1704844800000"
    by (simp add: parseIsoDay_eval exGuestP1_def)
  have htr: "parseIsoDay (addedAt exCustomerP1) = Some 1705276800000"
    by (simp add: parseIsoDay_eval exCustomerP1_def)
  have "\<exists>e\<in>set (mergeWishlists pickFirst parseIsoDay [exGuestP1] [exCustomerP1]).
         map_of (mergedMap parseIsoDay [exGuestP1] [exCustomerP1]) (createItemKey exCustomerP1) = Some e \<and>
         parseIsoDay (addedAt e) = Some (min 1704844800000 1705276800000)"
    by (rule mergeWishlists_earliest_addedAt[of "[exGuestP1]" "[exCustomerP1]" exGuestP1 exCustomerP1
          parseIsoDay _ _ pickFirst, OF _ _ _ _ k htl htr]) simp_all
  then have "\<exists>e\<in>set (mergeWishlists pickFirst parseIsoDay [exGuestP1] [exCustomerP1]).
         map_of (mergedMap parseIsoDay [exGuestP1] [exCustomerP1]) (createItemKey exCustomerP1) = Some e \<and>
         parseIsoDay (addedAt e) = Some 1704844800000"
    by simp
  with k htl htr show ?thesis by simp
qed

text \<open>
  C4 as it was stated fails when a collection holds a key twice. First, the remote
  collection holds product \<open>p1\<close> twice, of 5 January and of 15 January, and the local item
  for \<open>p1\<close> is of 20 January: the merge returns the one item of 15 January, while the local
  item and the first remote item share the key and the earlier of them is of 5 January.
  Second, the local collection holds \<open>p1\<close> twice, of 20 January and of 10 January, and the
  remote item is of 15 January: the merge returns one item of 10 January, while the first
  local item and the remote item share the key and the earlier of them is of 15 January.
\<close>

theorem mergeWishlists_duplicate_key_not_min:
  "createItemKey exGuestP1Late = createItemKey exCustomerP1Early
   \<and> parseIsoDay (addedAt exGuestP1Late) = Some 1705708800000
   \<and> parseIsoDay (addedAt exCustomerP1Early) = Some 1704412800000
   \<and> map addedAt (mergeWishlists pickFirst parseIsoDay [exGuestP1Late] [exCustomerP1Early, exCustomerP1])
       = [''2024-01-15'']
   \<and> parseIsoDay ''2024-01-15'' = Some 1705276800000
   \<and> min (1705708800000 :: int) 1704412800000 \<noteq> 1705276800000
   \<and> createItemKey exGuestP1Late = createItemKey exCustomerP1
   \<and> map addedAt (mergeWishlists pickFirst parseIsoDay [exGuestP1Late, exGuestP1] [exCustomerP1])
       = [''2024-01-10'']
   \<and> parseIsoDay ''2024-01-10'' = Some 1704844800000
   \<and> min (1705708800000 :: int) 1705276800000 \<noteq> 1704844800000"
  by (simp add: merge_eval parseIsoDay_eval exGuestP1Late_def exCustomerP1Early_def
      exCustomerP1_def exGuestP1_def)

section \<open>Merging again\<close>

text \<open>
  C7, as amended. When the key strings of the items of \<open>A\<close> and \<open>B\<close> are unambiguous,
  merging \<open>A\<close> into the merge of \<open>A\<close> and \<open>B\<close> returns the same set of items as the merge
  of \<open>A\<close> and \<open>B\<close>.
\<close>

theorem mergeWishlists_remerge:
  assumes "unambiguousKeys (A @ B)"
  shows "set (mergeWishlists impl parse A (mergeWishlists impl parse A B)) = set (mergeWishlists impl parse A B)"
proof -
  let ?m1 = "mergedMap parse A B"
  let ?M = "mergeWishlists impl parse A B"
  let ?m2 = "fold addCustomerItem ?M []"
  have inv: "keyed (A @ B) ?m1" using assms by (rule keyed_mergedMap)
  have d1: "distinct (map fst ?m1)" by (rule distinct_mergedMap)
  have dM: "distinct (map createItemKey ?M)"
    unfolding mergeWishlists_def distinct_map_jsSort keyed_map_keys[OF inv] by (rule d1)
  have same: "map_of ?m2 k = map_of ?m1 k" for k
  proof (cases "map_of ?m1 k")
    case None
    have "k \<notin> createItemKey ` set ?M"
    proof
      assume "k \<in> createItemKey ` set ?M"
      then obtain e where e: "e \<in> set ?M" "createItemKey e = k" by auto
      then obtain k' where "map_of ?m1 k' = Some e" unfolding mem_mergeWishlists by blast
      with keyed_key[OF inv this] e None show False by simp
    qed
    with None show ?thesis by (simp add: map_of_seed_other)
  next
    case (Some e)
    then have "e \<in> set ?M" unfolding mem_mergeWishlists by blast
    from map_of_seed[OF dM this, of "[]"] keyed_key[OF inv Some] Some show ?thesis by simp
  qed
  have "settled parse A ?m2"
    using settled_mergedMap[of parse A B] by (simp add: settled_def same)
  then have "mergedMap parse A ?M = ?m2"
    unfolding mergedMap_def by (rule guestFold_settled)
  moreover have "set ?m2 = set ?m1"
  proof -
    have "distinct (map fst ?m2)" by (simp add: distinct_seed)
    moreover have "map_of ?m2 = map_of ?m1" using same by (rule ext)
    ultimately show ?thesis using d1 by (simp add: map_of_inject_set)
  qed
  ultimately show ?thesis by (simp add: set_mergeWishlists)
qed

text \<open>The theorem at the guest and customer items for product \<open>p1\<close>.\<close>

theorem mergeWishlists_remerge_witness:
  "unambiguousKeys ([exGuestP1] @ [exCustomerP1]) \<and>
   set (mergeWishlists pickFirst parseIsoDay [exGuestP1] (mergeWishlists pickFirst parseIsoDay [exGuestP1] [exCustomerP1]))
     = set (mergeWishlists pickFirst parseIsoDay [exGuestP1] [exCustomerP1])"
proof -
  have u: "unambiguousKeys ([exGuestP1] @ [exCustomerP1])"
    by (simp add: unambiguousKeys_def exGuestP1_def exCustomerP1_def)
  from mergeWishlists_remerge[OF u, of pickFirst parseIsoDay] u show ?thesis by simp
qed

text \<open>
  C7 as it was stated fails on the two items with the ambiguous key: the first merge
  returns one item, merging the guest list into it returns two.
\<close>

theorem mergeWishlists_remerge_grows:
  "set (mergeWishlists pickFirst parseIsoDay [exGuestAB] (mergeWishlists pickFirst parseIsoDay [exGuestAB] [exCustomerA]))
     \<noteq> set (mergeWishlists pickFirst parseIsoDay [exGuestAB] [exCustomerA])
   \<and> length (mergeWishlists pickFirst parseIsoDay [exGuestAB] (mergeWishlists pickFirst parseIsoDay [exGuestAB] [exCustomerA])) = 2
   \<and> length (mergeWishlists pickFirst parseIsoDay [exGuestAB] [exCustomerA]) = 1"
  by (simp add: merge_eval parseIsoDay_eval exGuestAB_def exCustomerA_def)

section \<open>Loading the stored collection\<close>

lemma isValidWishlistItem_wellFormed: "isValidWishlistItem r = wellFormedRecord r"
proof -
  have str: "(truthy v \<and> typeof v = ''string'') = nonEmptyString v" for v
    by (cases v rule: nonEmptyString.cases) simp_all
  show ?thesis
  proof (cases r)
    case (JObj kvs)
    then show ?thesis
      using str[of "map_of kvs ''productId''"] str[of "map_of kvs ''productTitle''"]
        str[of "map_of kvs ''addedAt''"]
      by (auto simp add: isValidWishlistItem_def wellFormedRecord_def)
  qed (simp_all add: isValidWishlistItem_def wellFormedRecord_def)
qed

lemmas store_eval = getStoredItems_def isStorageAvailable_def exStore_def
  isValidWishlistItem_def wellFormedRecord_def
  exRecord1_def exRecord2_def exRecord3_def exCorruptRecord_def exBadDateRecord_def

text \<open>
  C5, as amended. \<open>getStoredItems\<close> always returns: it gives the empty collection when the
  storage is unavailable, when reading throws, and when the entry is missing, empty,
  unparseable or not an array; otherwise it gives exactly the stored records that have a
  non-empty string \<open>productId\<close>, a non-empty string \<open>productTitle\<close> and a non-empty string
  \<open>addedAt\<close>, each invalid record being left out on its own. Whether \<open>addedAt\<close> parses as
  a date is not checked.
\<close>

theorem getStoredItems_keeps_well_formed_records:
  "(\<not> isStorageAvailable ls \<or> getItemThrows ls \<or> (\<forall>records. wishlistItems ls \<noteq> Parsed (JArr records))
      \<longrightarrow> getStoredItems ls = []) \<and>
   (isStorageAvailable ls \<and> \<not> getItemThrows ls \<and> wishlistItems ls = Parsed (JArr records)
      \<longrightarrow> getStoredItems ls = filter wellFormedRecord records)"
proof -
  have "isValidWishlistItem = wellFormedRecord"
    by (rule ext) (rule isValidWishlistItem_wellFormed)
  then have valid: "filter isValidWishlistItem rs = filter wellFormedRecord rs" for rs
    by simp
  show ?thesis
    by (auto simp add: getStoredItems_def valid split: stored.splits json.splits)
qed

text \<open>
  The theorem at a store holding one corrupted record (no title) among three valid ones:
  exactly the three valid records are loaded. A store whose text does not parse loads nothing.
\<close>

theorem getStoredItems_keeps_well_formed_records_witness:
  "isStorageAvailable (exStore [exRecord1, exCorruptRecord, exRecord2, exRecord3])
   \<and> \<not> getItemThrows (exStore [exRecord1, exCorruptRecord, exRecord2, exRecord3])
   \<and> getStoredItems (exStore [exRecord1, exCorruptRecord, exRecord2, exRecord3])
       = [exRecord1, exRecord2, exRecord3]
   \<and> getStoredItems ((exStore [exRecord1])\<lparr>wishlistItems := Unparseable\<rparr>) = []"
proof -
  let ?rs = "[exRecord1, exCorruptRecord, exRecord2, exRecord3]"
  have a: "isStorageAvailable (exStore ?rs)" "\<not> getItemThrows (exStore ?rs)"
    "wishlistItems (exStore ?rs) = Parsed (JArr ?rs)"
    by (simp_all add: isStorageAvailable_def exStore_def)
  have f: "filter wellFormedRecord ?rs = [exRecord1, exRecord2, exRecord3]"
    by (simp add: wellFormedRecord_def exRecord1_def exRecord2_def exRecord3_def exCorruptRecord_def)
  have b: "\<forall>records. wishlistItems ((exStore [exRecord1])\<lparr>wishlistItems := Unparseable\<rparr>) \<noteq> Parsed (JArr records)"
    by simp
  from getStoredItems_keeps_well_formed_records[of "exStore ?rs" ?rs]
    getStoredItems_keeps_well_formed_records[of "(exStore [exRecord1])\<lparr>wishlistItems := Unparseable\<rparr>"] a f b
  show ?thesis by simp
qed

text \<open>
  C5 as it was stated fails: a record whose \<open>addedAt\<close> is the string \<open>not-a-date\<close> is
  loaded, although that string is not a date.
\<close>

theorem getStoredItems_keeps_unparseable_date:
  "getStoredItems (exStore [exBadDateRecord]) = [exBadDateRecord]
   \<and> getProp exBadDateRecord ''addedAt'' = Some (JStr ''not-a-date'')
   \<and> parseIsoDay ''not-a-date'' = None
   \<and> filter (specValidRecord parseIsoDay) [exBadDateRecord] = []"
  by (simp add: store_eval specValidRecord_def parseIsoDay_def)

section \<open>Uniqueness of the stored collection\<close>

lemma getProp_toJson_productId: "getProp (toJson i) ''productId'' = Some (JStr (productId i))"
  by (simp add: toJson_def)

lemma getProp_toJson_variantId:
  "getProp (toJson i) ''variantId'' = map_option JStr (read (variantId i))"
  by (simp add: toJson_def jsonField_def split: option.splits)




lemma sameEntry_toJson_self: "sameEntry (productId item) (read (variantId item)) (toJson item)"
  by (simp add: sameEntry_def getProp_toJson_productId getProp_toJson_variantId)







section \<open>The provider: failed remote calls\<close>

lemma filter_not_sameEntry:
  "\<not> list_ex (sameEntry pid vid) xs \<Longrightarrow> filter (\<lambda>i. \<not> sameEntry pid vid i) xs = xs"
  by (induction xs) auto

lemma not_list_ex_filter: "\<not> list_ex P (filter (\<lambda>i. \<not> P i) xs)"
  by (induction xs) auto

lemma read_copied: "read (copied v) = read v"
  by (cases v) simp_all

lemma rollback_optimisticAdd:
  assumes "\<not> list_ex (sameEntry (productId item) (read (variantId item))) prev"
  shows "rollbackAdd item (optimisticAdd item prev) = prev"
  using assms
  by (simp add: rollbackAdd_def optimisticAdd_def filter_not_sameEntry sameEntry_toJson_self)

text \<open>
  C2, as amended. When the provider loads in identified mode with an API key, a non-empty
  stored collection and auto-merge enabled, and the sync call fails (transport error, status
  429, unreadable body, a status outside 2xx or \<open>success: false\<close>), the in-memory collection
  is left as it was before loading (empty on a fresh mount), the error is set, the local
  storage is left untouched, so the guest items stay stored, and both flags are cleared.
\<close>

theorem loadItems_sync_failure_keeps_memory:
  assumes "\<not> isGuest config" and "given (apiKey config)"
    and "getStoredItems ls \<noteq> []" and "autoMergeEnabled config" and "syncFailed reply"
  shows "items (fst (loadItems config reply (st, ls))) = items st \<and>
         error (fst (loadItems config reply (st, ls))) \<noteq> None \<and>
         snd (loadItems config reply (st, ls)) = ls \<and>
         \<not> isLoading (fst (loadItems config reply (st, ls))) \<and>
         \<not> isSyncing (fst (loadItems config reply (st, ls)))"
  using assms
  by (auto simp add: loadItems_def syncWishlist_def Let_def syncFailed_def isGuest_def
      split: fetched.splits option.splits)

text \<open>The theorem at a provider that already shows the guest record when the sync is rejected.\<close>

theorem loadItems_sync_failure_keeps_memory_witness:
  "\<not> isGuest exIdentified \<and> given (apiKey exIdentified)
   \<and> getStoredItems (exStore [exRecord1]) \<noteq> [] \<and> autoMergeEnabled exIdentified
   \<and> syncFailed Rejected
   \<and> items (fst (loadItems exIdentified Rejected (exReady [exRecord1], exStore [exRecord1]))) = [exRecord1]
   \<and> error (fst (loadItems exIdentified Rejected (exReady [exRecord1], exStore [exRecord1]))) \<noteq> None
   \<and> snd (loadItems exIdentified Rejected (exReady [exRecord1], exStore [exRecord1])) = exStore [exRecord1]"
proof -
  have a: "\<not> isGuest exIdentified" "given (apiKey exIdentified)"
    by (simp_all add: isGuest_def exIdentified_def)
  have s: "getStoredItems (exStore [exRecord1]) \<noteq> []"
    by (simp add: getStoredItems_def isStorageAvailable_def exStore_def isValidWishlistItem_def exRecord1_def)
  have m: "autoMergeEnabled exIdentified" by (simp add: autoMergeEnabled_def exIdentified_def)
  have f: "syncFailed Rejected" by (simp add: syncFailed_def)
  from loadItems_sync_failure_keeps_memory[OF a s m f, of "exReady [exRecord1]"] a s m f
  show ?thesis by (simp add: exReady_def)
qed

text \<open>
  C2 as it was stated fails on a fresh mount: the store holds one item, the sync is
  rejected, and the in-memory collection stays empty.
\<close>

theorem loadItems_sync_failure_fresh_mount_empty:
  "\<not> isGuest exIdentified \<and> given (apiKey exIdentified) \<and> autoMergeEnabled exIdentified
   \<and> getStoredItems (exStore [exRecord1]) = [exRecord1]
   \<and> items (fst (loadItems exIdentified Rejected (initialState, exStore [exRecord1]))) = []
   \<and> error (fst (loadItems exIdentified Rejected (initialState, exStore [exRecord1]))) = Some msg_network"
  by (simp add: loadItems_def syncWishlist_def isGuest_def autoMergeEnabled_def exIdentified_def
      getStoredItems_def isStorageAvailable_def exStore_def isValidWishlistItem_def exRecord1_def
      initialState_def)

text \<open>
  C3, as amended. When \<open>add\<close> runs in identified mode with an API key for a product that
  is not in the in-memory collection, and the update call fails, the in-memory collection
  after the operation is exactly the one before it. The error is the network message when
  the transport failed or the body could not be read; otherwise it is the error text of the
  answer or, when the answer has none, the message for an unexpected error.
\<close>

theorem add_failure_rolls_back_new_item:
  assumes "\<not> isGuest config" and "given (apiKey config)" and "updateFailed reply"
    and "\<not> isWishlisted st (p_id product) (read (p_variantId product))"
  shows "items (fst (add config now reply product (st, ls))) = items st \<and>
         error (fst (add config now reply product (st, ls))) =
           Some (case reply of
                   Rejected \<Rightarrow> msg_network
                 | Replied status body \<Rightarrow>
                     (case body of
                        None \<Rightarrow> msg_network
                      | Some result \<Rightarrow> (case resp_error result of None \<Rightarrow> msg_unknown | Some e \<Rightarrow> e)))"
proof -
  let ?it = "newItem now product"
  have "\<not> list_ex (sameEntry (productId ?it) (read (variantId ?it))) (items st)"
    using assms(4) by (simp add: isWishlisted_def newItem_def read_copied)
  then have rolled: "rollbackAdd ?it (optimisticAdd ?it (items st)) = items st"
    by (rule rollback_optimisticAdd)
  show ?thesis
    using assms(1,2,3) rolled
    by (auto simp add: add_def Let_def updateFailed_def split: fetched.splits option.splits)
qed

text \<open>The theorem at a collection of one other record and an answer with status 500.\<close>

theorem add_failure_rolls_back_new_item_witness:
  "\<not> isGuest exIdentified \<and> given (apiKey exIdentified)
   \<and> updateFailed (Replied 500 (Some exFailure))
   \<and> \<not> isWishlisted (exReady [exRecord2]) (p_id exProductP1) (read (p_variantId exProductP1))
   \<and> items (fst (add exIdentified ''2024-01-20T10:00:00.000Z'' (Replied 500 (Some exFailure)) exProductP1
        (exReady [exRecord2], exStore []))) = [exRecord2]
   \<and> error (fst (add exIdentified ''2024-01-20T10:00:00.000Z'' (Replied 500 (Some exFailure)) exProductP1
        (exReady [exRecord2], exStore []))) = Some msg_unknown"
proof -
  have a: "\<not> isGuest exIdentified" "given (apiKey exIdentified)"
    by (simp_all add: isGuest_def exIdentified_def)
  have f: "updateFailed (Replied 500 (Some exFailure))"
    by (simp add: updateFailed_def exFailure_def)
  have n: "\<not> isWishlisted (exReady [exRecord2]) (p_id exProductP1) (read (p_variantId exProductP1))"
    by (simp add: isWishlisted_def exReady_def sameEntry_def exRecord2_def exProductP1_def)
  from add_failure_rolls_back_new_item[OF a f n, of "''2024-01-20T10:00:00.000Z''" "exStore []"] a f n
  show ?thesis by (simp add: exReady_def exFailure_def)
qed

text \<open>
  C3 as it was stated fails: adding a product that is already in the collection, with an
  answer of status 500 and no error text, removes the entry that was there and sets the
  message for an unexpected error, which is neither the network nor the sync-failed message.
\<close>

theorem add_failure_drops_existing_item:
  "\<not> isGuest exIdentified \<and> given (apiKey exIdentified)
   \<and> updateFailed (Replied 500 (Some exFailure))
   \<and> items (fst (add exIdentified ''2024-01-20T10:00:00.000Z'' (Replied 500 (Some exFailure)) exProductP1
        (exReady [exRecord1], exStore []))) = []
   \<and> items (exReady [exRecord1]) = [exRecord1]
   \<and> error (fst (add exIdentified ''2024-01-20T10:00:00.000Z'' (Replied 500 (Some exFailure)) exProductP1
        (exReady [exRecord1], exStore []))) = Some msg_unknown
   \<and> msg_unknown \<noteq> msg_network \<and> msg_unknown \<noteq> msg_syncFailed"
  by (simp add: add_def isGuest_def exIdentified_def updateFailed_def exFailure_def res_ok_def
      exReady_def optimisticAdd_def rollbackAdd_def sameEntry_def newItem_def exProductP1_def
      exRecord1_def msg_unknown_def msg_network_def msg_syncFailed_def)

text \<open>
  C8. When \<open>remove\<close> runs in identified mode with an API key and the update call fails, the
  in-memory collection is the one before the call without the removed entry, which is not
  restored, the error is set and the local storage is untouched.
\<close>

theorem remove_failure_not_restored:
  assumes "\<not> isGuest config" and "given (apiKey config)" and "updateFailed reply"
  shows "items (fst (remove config reply pid vid (st, ls)))
           = filter (\<lambda>item. \<not> sameEntry pid vid item) (items st) \<and>
         \<not> isWishlisted (fst (remove config reply pid vid (st, ls))) pid vid \<and>
         error (fst (remove config reply pid vid (st, ls))) \<noteq> None \<and>
         snd (remove config reply pid vid (st, ls)) = ls"
  using assms
  by (auto simp add: remove_def Let_def updateFailed_def optimisticRemove_def isWishlisted_def
      not_list_ex_filter split: fetched.splits option.splits)

text \<open>The theorem at a collection of two records and an answer with status 500.\<close>

theorem remove_failure_not_restored_witness:
  "\<not> isGuest exIdentified \<and> given (apiKey exIdentified)
   \<and> updateFailed (Replied 500 (Some exFailure))
   \<and> isWishlisted (exReady [exRecord1, exRecord2]) ''p1'' None
   \<and> items (fst (remove exIdentified (Replied 500 (Some exFailure)) ''p1'' None
        (exReady [exRecord1, exRecord2], exStore []))) = [exRecord2]
   \<and> error (fst (remove exIdentified (Replied 500 (Some exFailure)) ''p1'' None
        (exReady [exRecord1, exRecord2], exStore []))) \<noteq> None"
proof -
  have a: "\<not> isGuest exIdentified" "given (apiKey exIdentified)"
    by (simp_all add: isGuest_def exIdentified_def)
  have f: "updateFailed (Replied 500 (Some exFailure))"
    by (simp add: updateFailed_def exFailure_def)
  have w: "isWishlisted (exReady [exRecord1, exRecord2]) ''p1'' None"
    by (simp add: isWishlisted_def exReady_def sameEntry_def exRecord1_def)
  have r: "filter (\<lambda>item. \<not> sameEntry ''p1'' None item) (items (exReady [exRecord1, exRecord2])) = [exRecord2]"
    by (simp add: exReady_def sameEntry_def exRecord1_def exRecord2_def)
  from remove_failure_not_restored[OF a f, of "''p1''" None "exReady [exRecord1, exRecord2]" "exStore []"] a f w r
  show ?thesis by simp
qed


section \<open>The key of an item without a variant\<close>





section \<open>Sorting by price\<close>

text \<open>
  What the two price sorts do achieve: the ascending sort puts the items without a price
  last whenever every amount parses to a finite number, the descending sort whenever
  every amount parses to a number above zero. In both cases the comparator is consistent,
  so the result does not depend on the engine.
\<close>

lemma sign_minus_flip:
  "aboveAll x \<Longrightarrow> aboveAll y \<Longrightarrow> signOf (jsMinus x y) = - signOf (jsMinus y x)"
  by (cases x; cases y) simp_all

lemma sign_minus_trans:
  "aboveAll x \<Longrightarrow> aboveAll y \<Longrightarrow> aboveAll z \<Longrightarrow>
   signOf (jsMinus x y) \<le> 0 \<Longrightarrow> signOf (jsMinus y z) \<le> 0 \<Longrightarrow> signOf (jsMinus x z) \<le> 0"
  by (cases x; cases y; cases z) (simp_all split: if_splits)

lemma consistent_lowToHigh:
  assumes "\<forall>z\<in>set xs. \<forall>p. read (price z) = Some p \<longrightarrow> (\<exists>q. pf (amount p) = Finite q)"
  shows "consistentOn (priceLowToHigh pf) xs"
proof -
  have cmp: "priceLowToHigh pf a b = jsMinus (ascPrice pf a) (ascPrice pf b)" for a b
    by (simp add: priceLowToHigh_def ascPrice_def)
  have ok: "aboveAll (ascPrice pf z)" if "z \<in> set xs" for z
  proof (cases "read (price z)")
    case None
    then show ?thesis by (simp add: ascPrice_def)
  next
    case (Some p)
    with assms that obtain q where "pf (amount p) = Finite q" by blast
    with Some show ?thesis by (simp add: ascPrice_def)
  qed
  show ?thesis
    unfolding consistentOn_def cmp
    by (blast intro: sign_minus_flip sign_minus_trans ok)
qed

lemma consistent_highToLow:
  assumes "\<forall>z\<in>set xs. \<forall>p. read (price z) = Some p \<longrightarrow> (\<exists>q>0. pf (amount p) = Finite q)"
  shows "consistentOn (priceHighToLow pf) xs"
proof -
  have cmp: "priceHighToLow pf a b = jsMinus (descPrice pf b) (descPrice pf a)" for a b
    by (simp add: priceHighToLow_def descPrice_def)
  have ok: "aboveAll (descPrice pf z)" if "z \<in> set xs" for z
  proof (cases "read (price z)")
    case None
    then show ?thesis by (simp add: descPrice_def)
  next
    case (Some p)
    with assms that obtain q where "pf (amount p) = Finite q" by blast
    with Some show ?thesis by (simp add: descPrice_def)
  qed
  have flip: "signOf (jsMinus (descPrice pf b) (descPrice pf a)) =
              - signOf (jsMinus (descPrice pf a) (descPrice pf b))"
    if "a \<in> set xs" "b \<in> set xs" for a b
    using that by (intro sign_minus_flip ok)
  have trans: "signOf (jsMinus (descPrice pf c) (descPrice pf a)) \<le> 0"
    if "a \<in> set xs" "b \<in> set xs" "c \<in> set xs"
      "signOf (jsMinus (descPrice pf b) (descPrice pf a)) \<le> 0"
      "signOf (jsMinus (descPrice pf c) (descPrice pf b)) \<le> 0" for a b c
    using sign_minus_trans[OF ok[OF that(3)] ok[OF that(2)] ok[OF that(1)] that(5,4)] .
  show ?thesis
    unfolding consistentOn_def cmp using flip trans by blast
qed

lemma insertSorted_lowToHigh:
  assumes "\<forall>z\<in>set (x # ys). \<forall>p. read (price z) = Some p \<longrightarrow> (\<exists>q. pf (amount p) = Finite q)"
    and "unpricedLast ys"
  shows "unpricedLast (insertSorted (priceLowToHigh pf) x ys)"
  using assms
proof (induction ys)
  case Nil
  then show ?case by (simp add: unpricedLast_def)
next
  case (Cons y ys)
  show ?case
  proof (cases "positive (priceLowToHigh pf x y)")
    case True
    have py: "hasPrice y"
    proof (rule ccontr)
      assume "\<not> hasPrice y"
      then have "read (price y) = None" by (simp add: hasPrice_def)
      with True Cons.prems(1) show False
        by (cases "read (price x)") (auto simp: priceLowToHigh_def)
    qed
    with Cons.prems(2) have "unpricedLast ys" by (simp add: unpricedLast_def)
    with Cons.IH Cons.prems(1) have "unpricedLast (insertSorted (priceLowToHigh pf) x ys)" by simp
    with True py show ?thesis by (simp add: unpricedLast_def)
  next
    case False
    show ?thesis
    proof (cases "hasPrice x")
      case True
      with False Cons.prems(2) show ?thesis by (simp add: unpricedLast_def)
    next
      case nx: False
      then have x: "read (price x) = None" by (simp add: hasPrice_def)
      have "\<not> hasPrice y"
      proof
        assume "hasPrice y"
        then obtain p where p: "read (price y) = Some p" by (auto simp: hasPrice_def)
        with Cons.prems(1) obtain q where "pf (amount p) = Finite q" by auto
        with False x p show False by (simp add: priceLowToHigh_def)
      qed
      with False nx Cons.prems(2) show ?thesis by (simp add: unpricedLast_def)
    qed
  qed
qed

lemma stableSort_lowToHigh:
  assumes "\<forall>z\<in>set xs. \<forall>p. read (price z) = Some p \<longrightarrow> (\<exists>q. pf (amount p) = Finite q)"
  shows "unpricedLast (stableSort (priceLowToHigh pf) xs)"
  using assms
proof (induction xs)
  case Nil
  show ?case by (simp add: unpricedLast_def stableSort_def)
next
  case (Cons x xs)
  have "set (stableSort (priceLowToHigh pf) xs) = set xs"
    using mset_stableSort[of "priceLowToHigh pf" xs] by (rule mset_eq_setD)
  with Cons insertSorted_lowToHigh[of x "stableSort (priceLowToHigh pf) xs" pf]
  show ?case by (simp add: stableSort_def)
qed

lemma sortByPriceLowToHigh_unpriced_last:
  assumes "\<forall>z\<in>set xs. \<forall>p. read (price z) = Some p \<longrightarrow> (\<exists>q. pf (amount p) = Finite q)"
  shows "unpricedLast (sortByPriceLowToHigh impl pf xs)"
  using consistent_lowToHigh[OF assms] stableSort_lowToHigh[OF assms]
  by (simp add: sortByPriceLowToHigh_def jsSort_def)

lemma insertSorted_highToLow:
  assumes "\<forall>z\<in>set (x # ys). \<forall>p. read (price z) = Some p \<longrightarrow> (\<exists>q>0. pf (amount p) = Finite q)"
    and "unpricedLast ys"
  shows "unpricedLast (insertSorted (priceHighToLow pf) x ys)"
  using assms
proof (induction ys)
  case Nil
  then show ?case by (simp add: unpricedLast_def)
next
  case (Cons y ys)
  show ?case
  proof (cases "positive (priceHighToLow pf x y)")
    case True
    have py: "hasPrice y"
    proof (rule ccontr)
      assume "\<not> hasPrice y"
      then have "read (price y) = None" by (simp add: hasPrice_def)
      with True Cons.prems(1) show False
        by (cases "read (price x)") (auto simp: priceHighToLow_def)
    qed
    with Cons.prems(2) have "unpricedLast ys" by (simp add: unpricedLast_def)
    with Cons.IH Cons.prems(1) have "unpricedLast (insertSorted (priceHighToLow pf) x ys)" by simp
    with True py show ?thesis by (simp add: unpricedLast_def)
  next
    case False
    show ?thesis
    proof (cases "hasPrice x")
      case True
      with False Cons.prems(2) show ?thesis by (simp add: unpricedLast_def)
    next
      case nx: False
      then have x: "read (price x) = None" by (simp add: hasPrice_def)
      have "\<not> hasPrice y"
      proof
        assume "hasPrice y"
        then obtain p where p: "read (price y) = Some p" by (auto simp: hasPrice_def)
        with Cons.prems(1) obtain q where "q > 0" "pf (amount p) = Finite q" by auto
        with False x p show False by (simp add: priceHighToLow_def)
      qed
      with False nx Cons.prems(2) show ?thesis by (simp add: unpricedLast_def)
    qed
  qed
qed

lemma stableSort_highToLow:
  assumes "\<forall>z\<in>set xs. \<forall>p. read (price z) = Some p \<longrightarrow> (\<exists>q>0. pf (amount p) = Finite q)"
  shows "unpricedLast (stableSort (priceHighToLow pf) xs)"
  using assms
proof (induction xs)
  case Nil
  show ?case by (simp add: unpricedLast_def stableSort_def)
next
  case (Cons x xs)
  have "set (stableSort (priceHighToLow pf) xs) = set xs"
    using mset_stableSort[of "priceHighToLow pf" xs] by (rule mset_eq_setD)
  with Cons insertSorted_highToLow[of x "stableSort (priceHighToLow pf) xs" pf]
  show ?case by (simp add: stableSort_def)
qed

lemma sortByPriceHighToLow_unpriced_last:
  assumes "\<forall>z\<in>set xs. \<forall>p. read (price z) = Some p \<longrightarrow> (\<exists>q>0. pf (amount p) = Finite q)"
  shows "unpricedLast (sortByPriceHighToLow impl pf xs)"
  using consistent_highToLow[OF assms] stableSort_highToLow[OF assms]
  by (simp add: sortByPriceHighToLow_def jsSort_def)

text \<open>
  C6 does not hold of \<open>sortByPriceHighToLow\<close>: an item without a price counts as 0, so it
  ties with an item whose price is 0 and keeps its place before it. Here the item without a
  price comes first in the input and first in the output, before the free item. The
  comparator is consistent on the two items, so every engine returns this order.
\<close>

theorem sortByPriceHighToLow_unpriced_before_free:
  "read (price exGuestP1) = None
   \<and> price exFreeP2 = Present \<lparr> amount = ''0.00'', currencyCode = ''USD'' \<rparr>
   \<and> parseDecimal ''0.00'' = Finite 0
   \<and> consistentOn (priceHighToLow parseDecimal) [exGuestP1, exFreeP2]
   \<and> sortByPriceHighToLow impl parseDecimal [exGuestP1, exFreeP2] = [exGuestP1, exFreeP2]
   \<and> \<not> unpricedLast (sortByPriceHighToLow impl parseDecimal [exGuestP1, exFreeP2])"
proof -
  have c: "consistentOn (priceHighToLow parseDecimal) [exGuestP1, exFreeP2]"
    by (simp add: consistentOn_def priceHighToLow_def exGuestP1_def exFreeP2_def
        parseDecimal_def decimalValue_def isDigit_def digitVal_def)
  have s: "stableSort (priceHighToLow parseDecimal) [exGuestP1, exFreeP2] = [exGuestP1, exFreeP2]"
    by (simp add: stableSort_def priceHighToLow_def exGuestP1_def exFreeP2_def
        parseDecimal_def decimalValue_def isDigit_def digitVal_def)
  have u: "\<not> unpricedLast [exGuestP1, exFreeP2]"
    by (simp add: unpricedLast_def hasPrice_def exGuestP1_def exFreeP2_def)
  have p: "parseDecimal ''0.00'' = Finite 0"
    by (simp add: parseDecimal_def decimalValue_def isDigit_def digitVal_def)
  from c s u p show ?thesis
    by (simp add: sortByPriceHighToLow_def jsSort_def) (simp add: exGuestP1_def exFreeP2_def)
qed

text \<open>The same at the engine that picks the first element each time.\<close>

theorem sortByPriceHighToLow_unpriced_before_free_witness:
  "consistentOn (priceHighToLow parseDecimal) [exGuestP1, exFreeP2]
   \<and> sortByPriceHighToLow pickFirst parseDecimal [exGuestP1, exFreeP2] = [exGuestP1, exFreeP2]
   \<and> \<not> unpricedLast (sortByPriceHighToLow pickFirst parseDecimal [exGuestP1, exFreeP2])"
  using sortByPriceHighToLow_unpriced_before_free[of pickFirst] by blast

end
